theory Spec2Isabelle
  imports Complex_Main
begin

section \<open>Python values and errors\<close>

text \<open>
  The external API hands the pages parsed JSON. A JSON object is a Python \<open>dict\<close>,
  which iterates in insertion order, so it is an association list; a well-formed one has
  distinct keys. A JSON float is kept as a rational: the code only tests it for being
  zero and passes it on.
\<close>

datatype json =
    JNull
  | JBool bool
  | JInt int
  | JFloat rat
  | JStr string
  | JList "json list"
  | JDict "(string \<times> json) list"

text \<open>The exceptions the modelled code can raise.\<close>

datatype py_error =
    AttributeError
  | TypeError
  | ValueError string
  | DatabaseError string

text \<open>Python truthiness: what \<open>not x\<close> and \<open>x or y\<close> test.\<close>

fun truthy :: "json \<Rightarrow> bool" where
  "truthy JNull = False"
| "truthy (JBool b) = b"
| "truthy (JInt n) = (n \<noteq> 0)"
| "truthy (JFloat r) = (r \<noteq> 0)"
| "truthy (JStr s) = (s \<noteq> [])"
| "truthy (JList xs) = (xs \<noteq> [])"
| "truthy (JDict kvs) = (kvs \<noteq> [])"

text \<open>\<open>a or b\<close>: the left operand when it is truthy, the right one otherwise.\<close>

definition py_or :: "json \<Rightarrow> json \<Rightarrow> json" where
  "py_or a b = (if truthy a then a else b)"

text \<open>\<open>d.get(k, default)\<close> and \<open>d.get(k)\<close> on a dict.\<close>

definition dict_get :: "(string \<times> json) list \<Rightarrow> string \<Rightarrow> json \<Rightarrow> json" where
  "dict_get kvs k d = (case map_of kvs k of None \<Rightarrow> d | Some v \<Rightarrow> v)"

definition dget :: "(string \<times> json) list \<Rightarrow> string \<Rightarrow> json" where
  "dget kvs k = dict_get kvs k JNull"

text \<open>\<open>d[k] = v\<close>: an existing key keeps its position, a new key goes to the end.\<close>

fun dict_set :: "('k \<times> 'v) list \<Rightarrow> 'k \<Rightarrow> 'v \<Rightarrow> ('k \<times> 'v) list" where
  "dict_set [] k v = [(k, v)]"
| "dict_set ((k', v') # kvs) k v =
     (if k' = k then (k, v) # kvs else (k', v') # dict_set kvs k v)"

text \<open>\<open>d.values()\<close>, in iteration order.\<close>

definition dict_values :: "('k \<times> 'v) list \<Rightarrow> 'v list" where
  "dict_values kvs = map snd kvs"

text \<open>A \<open>for\<close> loop body that may raise, run over a list: the first error ends the loop.\<close>

fun map_err :: "('a \<Rightarrow> 'e + 'b) \<Rightarrow> 'a list \<Rightarrow> 'e + 'b list" where
  "map_err f [] = Inr []"
| "map_err f (x # xs) =
     (case f x of
        Inl e \<Rightarrow> Inl e
      | Inr y \<Rightarrow> (case map_err f xs of Inl e \<Rightarrow> Inl e | Inr ys \<Rightarrow> Inr (y # ys)))"

fun fold_err :: "('a \<Rightarrow> 's \<Rightarrow> 'e + 's) \<Rightarrow> 'a list \<Rightarrow> 's \<Rightarrow> 'e + 's" where
  "fold_err f [] s = Inr s"
| "fold_err f (x # xs) s =
     (case f x s of Inl e \<Rightarrow> Inl e | Inr s' \<Rightarrow> fold_err f xs s')"

text \<open>
  What a \<open>for\<close> loop iterates over: a list gives its elements, a dict its keys, a string
  its characters; \<open>None\<close>, booleans and numbers are not iterable.
\<close>

fun py_iter :: "json \<Rightarrow> py_error + json list" where
  "py_iter (JList xs) = Inr xs"
| "py_iter (JDict kvs) = Inr (map (\<lambda>kv. JStr (fst kv)) kvs)"
| "py_iter (JStr s) = Inr (map (\<lambda>c. JStr [c]) s)"
| "py_iter _ = Inl TypeError"

section \<open>pages/live\_matches.py: the innings scorecard\<close>

text \<open>A row handed to the data frame: the dict literal of the source, in its key order.\<close>

type_synonym row = "(string \<times> json) list"

text \<open>
  The dict appended to \<open>batsmen_list\<close>. Each field is \<open>batsman.get(a) or batsman.get(b, d)\<close>;
  \<open>.get\<close> on anything but a dict raises \<open>AttributeError\<close>.
\<close>

fun batsman_row :: "json \<Rightarrow> py_error + row" where
  "batsman_row (JDict b) = Inr
     [(''Name'', py_or (dget b ''name'') (dict_get b ''batName'' (JStr ''''))),
      (''Runs'', py_or (dget b ''runs'') (dict_get b ''r'' (JInt 0))),
      (''Balls'', py_or (dget b ''balls'') (dict_get b ''b'' (JInt 0))),
      (''4s'', py_or (dget b ''fours'') (dict_get b ''4s'' (JInt 0))),
      (''6s'', py_or (dget b ''sixes'') (dict_get b ''6s'' (JInt 0))),
      (''SR'', py_or (dget b ''strkrate'') (dict_get b ''sr'' (JInt 0))),
      (''Out'', py_or (dget b ''outdec'') (dict_get b ''howOut'' (JStr '''')))]"
| "batsman_row _ = Inl AttributeError"

fun bowler_row :: "json \<Rightarrow> py_error + row" where
  "bowler_row (JDict b) = Inr
     [(''Name'', py_or (dget b ''name'') (dict_get b ''bowlName'' (JStr ''''))),
      (''Overs'', py_or (dget b ''overs'') (dict_get b ''ov'' (JInt 0))),
      (''Runs'', py_or (dget b ''runs'') (dict_get b ''r'' (JInt 0))),
      (''Wickets'', py_or (dget b ''wickets'') (dict_get b ''w'' (JInt 0))),
      (''Maidens'', py_or (dget b ''maidens'') (dict_get b ''m'' (JInt 0))),
      (''Economy'', py_or (dget b ''economy'') (dict_get b ''econ'' (JInt 0)))]"
| "bowler_row _ = Inl AttributeError"

text \<open>
  The participant source of an innings: the list under \<open>list_key\<close> when that value is a
  list, else the values of the dict under \<open>dict_key\<close> when that value is a dict, else
  nothing.
\<close>

definition participants :: "(string \<times> json) list \<Rightarrow> string \<Rightarrow> string \<Rightarrow> json list" where
  "participants innings list_key dict_key =
     (case dget innings list_key of
        JList xs \<Rightarrow> xs
      | _ \<Rightarrow> (case dget innings dict_key of
                JDict d \<Rightarrow> dict_values d
              | _ \<Rightarrow> []))"

definition batsmen_source :: "(string \<times> json) list \<Rightarrow> json list" where
  "batsmen_source innings = participants innings ''batsman'' ''batsmenData''"

definition bowlers_source :: "(string \<times> json) list \<Rightarrow> json list" where
  "bowlers_source innings = participants innings ''bowler'' ''bowlersData''"

text \<open>What one pass of the innings loop renders.\<close>

record innings_view =
  inning_no :: nat
  bat_team_name :: json
  batsmen_list :: "row list"
  bowlers_list :: "row list"

fun render_innings :: "nat \<Rightarrow> json \<Rightarrow> py_error + innings_view" where
  "render_innings i (JDict innings) =
     (case map_err batsman_row (batsmen_source innings) of
        Inl e \<Rightarrow> Inl e
      | Inr bats \<Rightarrow>
          (case map_err bowler_row (bowlers_source innings) of
             Inl e \<Rightarrow> Inl e
           | Inr bowls \<Rightarrow> Inr
               \<lparr>inning_no = i,
                bat_team_name =
                  py_or (dget innings ''batteamname'')
                    (py_or (dget innings ''batTeamName'')
                      (py_or (dget innings ''batTeamShortName'')
                        (py_or (dget innings ''batTeam'') (JStr '''')))),
                batsmen_list = bats,
                bowlers_list = bowls\<rparr>))"
| "render_innings i _ = Inl AttributeError"

text \<open>\<open>for i, innings in enumerate(innings_list, start=1)\<close>.\<close>

fun render_all :: "nat \<Rightarrow> json list \<Rightarrow> py_error + innings_view list" where
  "render_all i [] = Inr []"
| "render_all i (x # xs) =
     (case render_innings i x of
        Inl e \<Rightarrow> Inl e
      | Inr v \<Rightarrow> (case render_all (Suc i) xs of Inl e \<Rightarrow> Inl e | Inr vs \<Rightarrow> Inr (v # vs)))"

text \<open>
  The innings collection: the \<open>or\<close> chain over the four keys of the response, which must
  be a dict for \<open>.get\<close> to exist.
\<close>

definition innings_value :: "(string \<times> json) list \<Rightarrow> json" where
  "innings_value data =
     py_or (dget data ''scorecard'')
       (py_or (dget data ''scoreCard'')
         (py_or (dget data ''innings'') (dget data ''scoreCards'')))"

text \<open>\<open>if isinstance(innings_list, dict): innings_list = list(innings_list.values())\<close>.\<close>

fun dict_to_list :: "json \<Rightarrow> json" where
  "dict_to_list (JDict kvs) = JList (dict_values kvs)"
| "dict_to_list v = v"

text \<open>
  The three outcomes of \<open>show_innings_scorecard\<close> once the response has arrived: the
  warning for a falsy response, the warning with the raw payload when no innings
  collection is found, and the rendered innings.
\<close>

datatype scorecard_view =
    NoResponse
  | NoInningsData json
  | Innings "innings_view list"

definition show_innings_scorecard :: "json \<Rightarrow> py_error + scorecard_view" where
  "show_innings_scorecard data =
     (if \<not> truthy data then Inr NoResponse
      else case data of
        JDict kvs \<Rightarrow>
          (let innings_list = innings_value kvs in
           if \<not> truthy innings_list then Inr (NoInningsData data)
           else case py_iter (dict_to_list innings_list) of
             Inl e \<Rightarrow> Inl e
           | Inr xs \<Rightarrow> (case render_all 1 xs of Inl e \<Rightarrow> Inl e | Inr vs \<Rightarrow> Inr (Innings vs)))
      | _ \<Rightarrow> Inl AttributeError)"

text \<open>The innings records of an outcome; the two warnings carry none.\<close>

fun innings_records :: "scorecard_view \<Rightarrow> innings_view list" where
  "innings_records (Innings vs) = vs"
| "innings_records _ = []"

section \<open>Python strings\<close>

text \<open>
  A Python \<open>str\<close> is a sequence of code points. Here a \<open>char\<close> stands for a code point
  below 256 (Latin-1), which covers every character the SQL guards look at.
\<close>

text \<open>\<open>str.isspace\<close> on one character: tab to carriage return, the four separators
  28 to 31, the space, NEL (133) and the no-break space (160).\<close>

definition py_isspace :: "char \<Rightarrow> bool" where
  "py_isspace c =
     (let n = (of_char c :: nat) in (9 \<le> n \<and> n \<le> 13) \<or> (28 \<le> n \<and> n \<le> 32) \<or> n = 133 \<or> n = 160)"

text \<open>\<open>s.strip()\<close>: whitespace removed at both ends.\<close>

definition strip :: "string \<Rightarrow> string" where
  "strip s = rev (dropWhile py_isspace (rev (dropWhile py_isspace s)))"

text \<open>\<open>s.lower()\<close>: the capitals A to Z and the Latin-1 capitals 192 to 222 (the
  multiplication sign 215 apart) move up by 32.\<close>

definition lower_char :: "char \<Rightarrow> char" where
  "lower_char c =
     (let n = (of_char c :: nat) in
      if (65 \<le> n \<and> n \<le> 90) \<or> (192 \<le> n \<and> n \<le> 222 \<and> n \<noteq> 215) then char_of (n + 32) else c)"

definition lower :: "string \<Rightarrow> string" where
  "lower s = map lower_char s"

text \<open>\<open>s.upper()\<close>: a to z and the Latin-1 small letters 224 to 254 (the division sign
  247 apart) move down by 32, and the sharp s (223) becomes \<open>SS\<close>. The two letters whose
  capitals lie outside Latin-1 (181 and 255) are left as they are.\<close>

definition upper_char :: "char \<Rightarrow> string" where
  "upper_char c =
     (let n = (of_char c :: nat) in
      if (97 \<le> n \<and> n \<le> 122) \<or> (224 \<le> n \<and> n \<le> 254 \<and> n \<noteq> 247) then [char_of (n - 32)]
      else if n = 223 then ''SS''
      else [c])"

definition upper :: "string \<Rightarrow> string" where
  "upper s = concat (map upper_char s)"

text \<open>\<open>s.startswith(p)\<close>.\<close>

definition startswith :: "string \<Rightarrow> string \<Rightarrow> bool" where
  "startswith s p = (take (length p) s = p)"

text \<open>\<open>sep.join(xs)\<close>.\<close>

fun join :: "string \<Rightarrow> string list \<Rightarrow> string" where
  "join sep [] = []"
| "join sep [x] = x"
| "join sep (x # y # ys) = x @ sep @ join sep (y # ys)"





section \<open>pages/live\_matches.py: the series of the live matches\<close>

text \<open>
  \<open>show_live_matches\<close> up to the choice of a series. The f-string that builds a key
  formats \<open>series_name\<close>, a JSON value of any type, with Python's built-in \<open>str\<close>; that
  built-in is the parameter \<open>fmt\<close>.
\<close>

definition series_step ::
  "(json \<Rightarrow> string) \<Rightarrow> string \<Rightarrow> json \<Rightarrow> (string \<times> json) list \<Rightarrow> py_error + (string \<times> json) list" where
  "series_step fmt match_type series series_options =
     (case series of
        JDict s \<Rightarrow>
          (case dict_get s ''seriesAdWrapper'' (JDict []) of
             JDict wrapper \<Rightarrow>
               (let matches = dget wrapper ''matches'' in
                if \<not> truthy matches then Inr series_options
                else
                  let series_name = dict_get wrapper ''seriesName'' (JStr ''Unnamed Series'');
                      key = fmt series_name @ '' ('' @ match_type @ '')''
                  in Inr (dict_set series_options key matches))
           | _ \<Rightarrow> Inl AttributeError)
      | _ \<Rightarrow> Inl AttributeError)"

definition type_match_step ::
  "(json \<Rightarrow> string) \<Rightarrow> json \<Rightarrow> (string \<times> json) list \<Rightarrow> py_error + (string \<times> json) list" where
  "type_match_step fmt type_match series_options =
     (case type_match of
        JDict tm \<Rightarrow>
          (case dict_get tm ''matchType'' (JStr ''UNKNOWN'') of
             JStr mt \<Rightarrow>
               (case py_iter (dict_get tm ''seriesMatches'' (JList [])) of
                  Inl e \<Rightarrow> Inl e
                | Inr ss \<Rightarrow> fold_err (series_step fmt (upper mt)) ss series_options)
           | _ \<Rightarrow> Inl AttributeError)
      | _ \<Rightarrow> Inl AttributeError)"

text \<open>
  The outcomes before any match is drawn: the warning for a falsy response, the warning
  for an empty \<open>series_options\<close>, and the series offered in the select box.
\<close>

datatype live_view =
    NoLiveMatches
  | NoActiveSeries
  | SeriesOptions "(string \<times> json) list"

definition show_live_matches :: "(json \<Rightarrow> string) \<Rightarrow> json \<Rightarrow> py_error + live_view" where
  "show_live_matches fmt data =
     (if \<not> truthy data then Inr NoLiveMatches
      else case data of
        JDict kvs \<Rightarrow>
          (case py_iter (dict_get kvs ''typeMatches'' (JList [])) of
             Inl e \<Rightarrow> Inl e
           | Inr tms \<Rightarrow>
               (case fold_err (type_match_step fmt) tms [] of
                  Inl e \<Rightarrow> Inl e
                | Inr series_options \<Rightarrow>
                    if series_options = [] then Inr NoActiveSeries
                    else Inr (SeriesOptions series_options)))
      | _ \<Rightarrow> Inl AttributeError)"

text \<open>The grouping an outcome carries; both warnings carry the empty one.\<close>

fun grouping :: "live_view \<Rightarrow> (string \<times> json) list" where
  "grouping (SeriesOptions opts) = opts"
| "grouping _ = []"

section \<open>utils/db\_connection.py: statements against the database\<close>

text \<open>
  The MySQL driver is outside the repository. It is a record of three answers over a
  server state \<open>'s\<close>: whether a connection opens, what \<open>pandas.read_sql\<close> returns for a
  statement, and what \<open>cursor.execute\<close> does with a statement and its bound values
  (the row count it leaves, and the new server state). Values bound to placeholders have
  type \<open>'v\<close>, rows of a result type \<open>'r\<close>. A failure of the driver is an \<open>Inl\<close>.
\<close>

record ('s, 'v, 'r) driver =
  drv_connect :: "string \<Rightarrow> string \<Rightarrow> string \<Rightarrow> string option \<Rightarrow> 's \<Rightarrow> py_error option"
  drv_read_sql :: "string option \<Rightarrow> string \<Rightarrow> 's \<Rightarrow> (py_error + 'r list) \<times> 's"
  drv_execute :: "string option \<Rightarrow> string \<Rightarrow> 'v list \<Rightarrow> 's \<Rightarrow> (py_error + int) \<times> 's"

text \<open>Every call into the driver is logged, in order.\<close>

datatype 'v db_event =
    Connect string string string "string option"
  | ReadSql "string option" string
  | Execute "string option" string "'v list"
  | Close "string option"

record ('s, 'v) world =
  server :: 's
  calls :: "'v db_event list"

definition log_call :: "'v db_event \<Rightarrow> ('s, 'v) world \<Rightarrow> ('s, 'v) world" where
  "log_call ev w = w\<lparr>calls := calls w @ [ev]\<rparr>"

text \<open>\<open>create_connection\<close>: the connection is named by the database it was opened on.\<close>

definition create_connection ::
  "('s, 'v, 'r) driver \<Rightarrow> string \<Rightarrow> string \<Rightarrow> string \<Rightarrow> string option \<Rightarrow> ('s, 'v) world
     \<Rightarrow> (py_error + string option) \<times> ('s, 'v) world" where
  "create_connection drv host user passwd database w =
     (case drv_connect drv host user passwd database (server w) of
        Some e \<Rightarrow> (Inl e, log_call (Connect host user passwd database) w)
      | None \<Rightarrow> (Inr database, log_call (Connect host user passwd database) w))"

definition pd_read_sql ::
  "('s, 'v, 'r) driver \<Rightarrow> string \<Rightarrow> string option \<Rightarrow> ('s, 'v) world
     \<Rightarrow> (py_error + 'r list) \<times> ('s, 'v) world" where
  "pd_read_sql drv sql conn w =
     (case drv_read_sql drv conn sql (server w) of
        (r, s') \<Rightarrow> (r, log_call (ReadSql conn sql) (w\<lparr>server := s'\<rparr>)))"

definition cur_execute ::
  "('s, 'v, 'r) driver \<Rightarrow> string option \<Rightarrow> string \<Rightarrow> 'v list \<Rightarrow> ('s, 'v) world
     \<Rightarrow> (py_error + int) \<times> ('s, 'v) world" where
  "cur_execute drv conn sql vals w =
     (case drv_execute drv conn sql vals (server w) of
        (r, s') \<Rightarrow> (r, log_call (Execute conn sql vals) (w\<lparr>server := s'\<rparr>)))"

definition conn_close :: "string option \<Rightarrow> ('s, 'v) world \<Rightarrow> ('s, 'v) world" where
  "conn_close conn w = log_call (Close conn) w"

subsection \<open>fetch\_table\<close>



subsection \<open>run\_select\<close>

definition run_select ::
  "('s, 'v, 'r) driver \<Rightarrow> string \<Rightarrow> string \<Rightarrow> string \<Rightarrow> string \<Rightarrow> string \<Rightarrow> ('s, 'v) world
     \<Rightarrow> (py_error + 'r list) \<times> ('s, 'v) world" where
  "run_select drv host user passwd database select_sql w =
     (if \<not> startswith (lower (strip select_sql)) ''select''
      then (Inl (ValueError ''Only SELECT queries are allowed.''), w)
      else case create_connection drv host user passwd (Some database) w of
        (Inl e, w1) \<Rightarrow> (Inl e, w1)
      | (Inr conn, w1) \<Rightarrow>
          (case pd_read_sql drv select_sql conn w1 of
             (Inl e, w2) \<Rightarrow> (Inl e, w2)
           | (Inr df, w2) \<Rightarrow> (Inr df, conn_close conn w2)))"

subsection \<open>insert\_row, delete\_rows, execute\_update\<close>

text \<open>The tail the three mutating functions share: connect, execute, read the row
  count, close, and return the count with the statement. An exception leaves the
  function at once, so a failed \<open>execute\<close> closes nothing. \<open>delete_rows\<close> and
  \<open>execute_update\<close> bind no values, which is the empty list here.\<close>

definition run_statement ::
  "('s, 'v, 'r) driver \<Rightarrow> string \<Rightarrow> string \<Rightarrow> string \<Rightarrow> string \<Rightarrow> string \<Rightarrow> 'v list \<Rightarrow> ('s, 'v) world
     \<Rightarrow> (py_error + int \<times> string) \<times> ('s, 'v) world" where
  "run_statement drv host user passwd database sql vals w =
     (case create_connection drv host user passwd (Some database) w of
        (Inl e, w1) \<Rightarrow> (Inl e, w1)
      | (Inr conn, w1) \<Rightarrow>
          (case cur_execute drv conn sql vals w1 of
             (Inl e, w2) \<Rightarrow> (Inl e, w2)
           | (Inr affected, w2) \<Rightarrow> (Inr (affected, sql), conn_close conn w2)))"

definition insert_row_sql :: "string \<Rightarrow> string list \<Rightarrow> string" where
  "insert_row_sql table keys =
     (let cols = map (\<lambda>c. ''`'' @ c @ ''`'') keys;
          placeholders = join '', '' (replicate (length cols) ''%s'')
      in ''INSERT INTO `'' @ table @ ''` ('' @ join '', '' cols @ '') VALUES ('' @ placeholders @ '');'')"

definition insert_row ::
  "('s, 'v, 'r) driver \<Rightarrow> string \<Rightarrow> string \<Rightarrow> string \<Rightarrow> string \<Rightarrow> string \<Rightarrow> (string \<times> 'v) list
     \<Rightarrow> ('s, 'v) world \<Rightarrow> (py_error + int \<times> string) \<times> ('s, 'v) world" where
  "insert_row drv host user passwd database table data w =
     (let sql = insert_row_sql table (map fst data);
          vals = dict_values data
      in run_statement drv host user passwd database sql vals w)"

definition delete_rows ::
  "('s, 'v, 'r) driver \<Rightarrow> string \<Rightarrow> string \<Rightarrow> string \<Rightarrow> string \<Rightarrow> string \<Rightarrow> string
     \<Rightarrow> ('s, 'v) world \<Rightarrow> (py_error + int \<times> string) \<times> ('s, 'v) world" where
  "delete_rows drv host user passwd database table where_clause w =
     (let where = strip where_clause in
      if where = [] then (Inl (ValueError ''Refusing to DELETE without WHERE clause.''), w)
      else
        let sql = ''DELETE FROM `'' @ table @ ''` WHERE '' @ where @ '';''
        in run_statement drv host user passwd database sql [] w)"

definition execute_update ::
  "('s, 'v, 'r) driver \<Rightarrow> string \<Rightarrow> string \<Rightarrow> string \<Rightarrow> string \<Rightarrow> string \<Rightarrow> string \<Rightarrow> string
     \<Rightarrow> ('s, 'v) world \<Rightarrow> (py_error + int \<times> string) \<times> ('s, 'v) world" where
  "execute_update drv host user passwd database table set_clause where_clause w =
     (let set_part = strip set_clause;
          where_part = strip where_clause
      in
      if set_part = [] then (Inl (ValueError ''SET clause cannot be empty.''), w)
      else if where_part = [] then (Inl (ValueError ''Refusing to UPDATE without WHERE clause.''), w)
      else
        let sql = ''UPDATE `'' @ table @ ''` SET '' @ set_part @ '' WHERE '' @ where_part @ '';''
        in run_statement drv host user passwd database sql [] w)"

subsection \<open>The LIMIT operand a statement carries\<close>







section \<open>pages/crud\_operations.py: the insert form\<close>

text \<open>
  The form holds one text per column that is not auto-increment. On submission a blank
  text becomes \<open>None\<close>, the \<open>None\<close>s are dropped, and \<open>insert_row\<close> is called only when
  something is left.
\<close>

datatype page_message =
    PageWarning string
  | PageSuccess int string
  | PageError py_error

definition form_inputs :: "(string \<times> string) list \<Rightarrow> (string \<times> string option) list" where
  "form_inputs texts =
     fold (\<lambda>(name, val) inputs. dict_set inputs name (if strip val = [] then None else Some val)) texts []"

definition clean_inputs :: "(string \<times> string option) list \<Rightarrow> (string \<times> string) list" where
  "clean_inputs inputs = List.map_filter (\<lambda>(k, v). map_option (Pair k) v) inputs"

definition insert_submitted ::
  "('s, string, 'r) driver \<Rightarrow> string \<Rightarrow> string \<Rightarrow> string \<Rightarrow> string \<Rightarrow> string \<Rightarrow> (string \<times> string) list
     \<Rightarrow> ('s, string) world \<Rightarrow> page_message \<times> ('s, string) world" where
  "insert_submitted drv host user passwd database table texts w =
     (let clean = clean_inputs (form_inputs texts) in
      if clean = [] then (PageWarning ''No values provided to insert.'', w)
      else case insert_row drv host user passwd database table clean w of
        (Inl e, w') \<Rightarrow> (PageError e, w')
      | (Inr (affected, sql), w') \<Rightarrow> (PageSuccess affected sql, w'))"

section \<open>utils/db\_connection.py: schema discovery\<close>

text \<open>
  \<open>get_mysql_schema\<close> only reads. The server, as the connecting user sees it, is the
  record of its answers to the statements the function issues: the administrative
  connection, \<open>SHOW DATABASES\<close>, the connection to one database, its base tables, the
  column rows of one table, and its views. \<open>None\<close> and \<open>False\<close> stand for the driver's
  \<open>Error\<close>, which the function catches per database.
\<close>

type_synonym column_row = "string \<times> string \<times> string \<times> string \<times> string option \<times> string"

record catalog_server =
  admin_connect :: "py_error option"
  show_databases :: "py_error + string list"
  db_connect :: "string \<Rightarrow> bool"
  base_tables :: "string \<Rightarrow> string list option"
  table_columns :: "string \<Rightarrow> string \<Rightarrow> column_row list option"
  view_names :: "string \<Rightarrow> string list option"

text \<open>The dict built for one column row \<open>c\<close>: \<open>c[0]\<close> to \<open>c[5]\<close> under their keys.\<close>

record column =
  col_name :: string
  col_type :: string
  col_nullable :: string
  col_key :: string
  col_default :: "string option"
  col_extra :: string

fun column_of_row :: "column_row \<Rightarrow> column" where
  "column_of_row (c0, c1, c2, c3, c4, c5) =
     \<lparr>col_name = c0, col_type = c1, col_nullable = c2, col_key = c3, col_default = c4, col_extra = c5\<rparr>"

text \<open>\<open>db_info\<close>: the four dicts under \<open>tables\<close>, \<open>views\<close>, \<open>functions\<close> and
  \<open>procedures\<close>. A view, function or procedure maps to an empty dict, so
  only its name is kept.\<close>

record db_info =
  info_tables :: "(string \<times> column list) list"
  info_views :: "(string \<times> unit) list"
  info_functions :: "(string \<times> unit) list"
  info_procedures :: "(string \<times> unit) list"

definition excluded :: "string list" where
  "excluded = [''information_schema'', ''performance_schema'', ''mysql'', ''sys'']"

text \<open>The loop over the base tables; an \<open>Error\<close> on one column query leaves the whole
  database out.\<close>

fun table_loop ::
  "catalog_server \<Rightarrow> string \<Rightarrow> string list \<Rightarrow> (string \<times> column list) list
     \<Rightarrow> (string \<times> column list) list option" where
  "table_loop srv db_name [] acc = Some acc"
| "table_loop srv db_name (table_name # rest) acc =
     (case table_columns srv db_name table_name of
        None \<Rightarrow> None
      | Some cols \<Rightarrow> table_loop srv db_name rest (dict_set acc table_name (map column_of_row cols)))"

text \<open>The body of the \<open>try\<close>: \<open>None\<close> when the database is skipped, by an \<open>Error\<close> or
  because it has no base table.\<close>

definition discover_db :: "catalog_server \<Rightarrow> string \<Rightarrow> db_info option" where
  "discover_db srv db_name =
     (if \<not> db_connect srv db_name then None
      else
        (case base_tables srv db_name of
           None \<Rightarrow> None
         | Some tbls \<Rightarrow>
             (if tbls = [] then None
              else
                (case table_loop srv db_name tbls [] of
                   None \<Rightarrow> None
                 | Some tabs \<Rightarrow>
                     (case view_names srv db_name of
                        None \<Rightarrow> None
                      | Some vs \<Rightarrow> Some
                          \<lparr>info_tables = tabs,
                           info_views = fold (\<lambda>v acc. dict_set acc v ()) vs [],
                           info_functions = [],
                           info_procedures = []\<rparr>)))))"

fun schema_loop ::
  "catalog_server \<Rightarrow> string list \<Rightarrow> (string \<times> db_info) list \<Rightarrow> (string \<times> db_info) list" where
  "schema_loop srv [] full_schema = full_schema"
| "schema_loop srv (db_name # rest) full_schema =
     (if db_name \<in> set excluded then schema_loop srv rest full_schema
      else case discover_db srv db_name of
        None \<Rightarrow> schema_loop srv rest full_schema
      | Some info \<Rightarrow> schema_loop srv rest (dict_set full_schema db_name info))"

definition get_mysql_schema :: "catalog_server \<Rightarrow> py_error + (string \<times> db_info) list" where
  "get_mysql_schema srv =
     (case admin_connect srv of
        Some e \<Rightarrow> Inl e
      | None \<Rightarrow>
          (case show_databases srv of
             Inl e \<Rightarrow> Inl e
           | Inr all_databases \<Rightarrow> Inr (schema_loop srv all_databases [])))"

text \<open>A database the user can read in full: it connects and every catalog query on it
  answers.\<close>

definition accessible :: "catalog_server \<Rightarrow> string \<Rightarrow> bool" where
  "accessible srv db_name =
     (db_connect srv db_name \<and>
      (case base_tables srv db_name of
         None \<Rightarrow> False
       | Some tbls \<Rightarrow> list_all (\<lambda>t. table_columns srv db_name t \<noteq> None) tbls) \<and>
      view_names srv db_name \<noteq> None)"

section \<open>Notions the statements below are phrased in\<close>

text \<open>The value a row holds under a field name; an error has no row.\<close>

definition row_field :: "py_error + row \<Rightarrow> string \<Rightarrow> json option" where
  "row_field r k = (case r of Inl e \<Rightarrow> None | Inr cells \<Rightarrow> map_of cells k)"

text \<open>\<open>isinstance(v, list)\<close>.\<close>

fun is_list :: "json \<Rightarrow> bool" where
  "is_list (JList xs) = True"
| "is_list _ = False"

text \<open>
  The innings collection as the specification words it: the keys \<open>scorecard\<close>,
  \<open>scoreCard\<close>, \<open>innings\<close>, \<open>scoreCards\<close> are tried in this order and the first one that
  is present with a non-empty (truthy) value wins.
\<close>

definition innings_keys :: "string list" where
  "innings_keys = [''scorecard'', ''scoreCard'', ''innings'', ''scoreCards'']"

definition locate_innings_spec :: "(string \<times> json) list \<Rightarrow> json option" where
  "locate_innings_spec data =
     (case List.find (\<lambda>k. case map_of data k of None \<Rightarrow> False | Some v \<Rightarrow> truthy v) innings_keys of
        None \<Rightarrow> None
      | Some k \<Rightarrow> map_of data k)"

text \<open>The innings rendered from a collection, in the order of the list or of the
  mapping's values.\<close>

definition render_collection :: "json \<Rightarrow> py_error + scorecard_view" where
  "render_collection v =
     (case py_iter (dict_to_list v) of
        Inl e \<Rightarrow> Inl e
      | Inr xs \<Rightarrow> (case render_all 1 xs of Inl e \<Rightarrow> Inl e | Inr vs \<Rightarrow> Inr (Innings vs)))"

text \<open>The innings records of a call, or the error it raised.\<close>

definition records_of :: "py_error + scorecard_view \<Rightarrow> py_error + innings_view list" where
  "records_of r = (case r of Inl e \<Rightarrow> Inl e | Inr v \<Rightarrow> Inr (innings_records v))"

text \<open>A \<open>ValueError\<close> is the validation error of the gateway.\<close>

fun is_validation_error :: "py_error + 'a \<Rightarrow> bool" where
  "is_validation_error (Inl (ValueError msg)) = True"
| "is_validation_error _ = False"

text \<open>A driver on a server without state that opens every connection, reports one
  affected row for every statement, and answers every query with no rows.\<close>

definition plain_driver :: "(unit, string, nat) driver" where
  "plain_driver =
     \<lparr>drv_connect = (\<lambda>host user passwd database s. None),
      drv_read_sql = (\<lambda>conn sql s. (Inr [], s)),
      drv_execute = (\<lambda>conn sql vals s. (Inr 1, s))\<rparr>"

definition fresh_world :: "(unit, string) world" where
  "fresh_world = \<lparr>server = (), calls = []\<rparr>"


text \<open>A server with one user database that holds a view and no base table, and one
  with a base table of two columns and a view.\<close>

definition views_only_server :: catalog_server where
  "views_only_server =
     \<lparr>admin_connect = None,
      show_databases = Inr [''information_schema'', ''reports''],
      db_connect = (\<lambda>db. True),
      base_tables = (\<lambda>db. Some []),
      table_columns = (\<lambda>db t. Some []),
      view_names = (\<lambda>db. Some [''v_totals''])\<rparr>"

definition cricket_server :: catalog_server where
  "cricket_server =
     \<lparr>admin_connect = None,
      show_databases = Inr [''mysql'', ''cricbuzz_db'', ''sys''],
      db_connect = (\<lambda>db. True),
      base_tables = (\<lambda>db. Some [''players'']),
      table_columns = (\<lambda>db t. Some
        [(''player_id'', ''int'', ''NO'', ''PRI'', None, ''auto_increment''),
         (''name'', ''varchar'', ''YES'', [], None, [])]),
      view_names = (\<lambda>db. Some [''v_totals''])\<rparr>"

text \<open>The calls a function added to the log of the world it started from.\<close>

definition calls_made :: "('s, 'v) world \<Rightarrow> ('s, 'v) world \<Rightarrow> 'v db_event list" where
  "calls_made w w' = drop (length (calls w)) (calls w')"

text \<open>Two innings with the same participants, once as plain lists and once as mappings
  from a player id.\<close>

definition innings_as_lists :: "(string \<times> json) list" where
  "innings_as_lists =
     [(''batTeamName'', JStr ''IND''),
      (''batsman'', JList [JDict [(''name'', JStr ''Rohit''), (''runs'', JInt 45)],
                          JDict [(''batName'', JStr ''Gill''), (''r'', JInt 12)]]),
      (''bowler'', JList [JDict [(''name'', JStr ''Starc''), (''wickets'', JInt 2)]])]"

definition innings_as_mappings :: "(string \<times> json) list" where
  "innings_as_mappings =
     [(''batTeamName'', JStr ''IND''),
      (''batsmenData'', JDict
         [(''bat_1'', JDict [(''name'', JStr ''Rohit''), (''runs'', JInt 45)]),
          (''bat_2'', JDict [(''batName'', JStr ''Gill''), (''r'', JInt 12)])]),
      (''bowlersData'', JDict [(''bowl_1'', JDict [(''name'', JStr ''Starc''), (''wickets'', JInt 2)])])]"

section \<open>Facts about the helpers\<close>

lemma all_dropWhile_iff:
  "(\<forall>x \<in> set (dropWhile P s). P x) \<longleftrightarrow> (\<forall>x \<in> set s. P x)"
proof
  assume a: "\<forall>x \<in> set (dropWhile P s). P x"
  have "dropWhile P s = []"
  proof (rule ccontr)
    assume n: "dropWhile P s \<noteq> []"
    then have "\<not> P (hd (dropWhile P s))" by (rule hd_dropWhile)
    moreover have "hd (dropWhile P s) \<in> set (dropWhile P s)" using n by (rule hd_in_set)
    ultimately show False using a by blast
  qed
  then show "\<forall>x \<in> set s. P x" by (simp only: dropWhile_eq_Nil_conv)
next
  assume "\<forall>x \<in> set s. P x"
  then show "\<forall>x \<in> set (dropWhile P s). P x" by (blast dest: set_dropWhileD)
qed

text \<open>\<open>strip\<close> leaves nothing exactly when every character is whitespace.\<close>

lemma strip_empty_iff: "strip s = [] \<longleftrightarrow> list_all py_isspace s"
  unfolding strip_def
  by (simp add: dropWhile_eq_Nil_conv list_all_iff all_dropWhile_iff)

text \<open>The \<open>or\<close> chain of the source finds what the specification's key order finds.\<close>

lemma locate_innings_spec_eq:
  "locate_innings_spec kvs =
     (if truthy (innings_value kvs) then Some (innings_value kvs) else None)"
  by (simp add: locate_innings_spec_def innings_keys_def innings_value_def py_or_def
      dget_def dict_get_def split: option.splits)

lemma show_innings_scorecard_dict:
  "kvs \<noteq> [] \<Longrightarrow> show_innings_scorecard (JDict kvs) =
     (if truthy (innings_value kvs) then render_collection (innings_value kvs)
      else Inr (NoInningsData (JDict kvs)))"
  by (simp add: show_innings_scorecard_def render_collection_def Let_def)

lemma participants_list:
  "dget i lk = JList xs \<Longrightarrow> participants i lk dk = xs"
  by (simp add: participants_def)

lemma participants_dict:
  "\<not> is_list (dget i lk) \<Longrightarrow> dget i dk = JDict d \<Longrightarrow> participants i lk dk = dict_values d"
  by (cases "dget i lk") (simp_all add: participants_def)

text \<open>Keys and entries of a dict after assignments.\<close>

lemma dict_set_keys: "fst ` set (dict_set kvs k v) = insert k (fst ` set kvs)"
proof (induction kvs)
  case Nil
  show ?case by simp
next
  case (Cons a kvs)
  obtain k' v' where a: "a = (k', v')" by (cases a)
  show ?case
  proof (cases "k' = k")
    case True
    then show ?thesis by (simp add: a)
  next
    case False
    then show ?thesis by (simp add: a Cons.IH insert_commute)
  qed
qed

lemma dict_set_mem:
  "(k', v') \<in> set (dict_set kvs k v) \<Longrightarrow> (k', v') \<in> set kvs \<or> (k' = k \<and> v' = v)"
  by (induction kvs) (auto split: if_splits)

lemma fold_dict_set_keys:
  "fst ` set (fold (\<lambda>v acc. dict_set acc v c) vs acc) = fst ` set acc \<union> set vs"
  by (induction vs arbitrary: acc) (auto simp: dict_set_keys)

lemma not_key_map_of: "k \<notin> fst ` set kvs \<Longrightarrow> map_of kvs k = None"
  by (simp add: map_of_eq_None_iff)

text \<open>The loops of schema discovery.\<close>

lemma table_loop_keys:
  "table_loop srv db tbls acc = Some tabs \<Longrightarrow> fst ` set tabs = fst ` set acc \<union> set tbls"
proof (induction tbls arbitrary: acc)
  case Nil
  then show ?case by simp
next
  case (Cons t tbls)
  then show ?case by (auto simp: dict_set_keys split: option.splits)
qed

lemma table_loop_mem:
  "table_loop srv db tbls acc = Some tabs \<Longrightarrow> (t, cols) \<in> set tabs \<Longrightarrow>
     (t, cols) \<in> set acc \<or> (\<exists>rows. table_columns srv db t = Some rows \<and> cols = map column_of_row rows)"
proof (induction tbls arbitrary: acc)
  case Nil
  then show ?case by simp
next
  case (Cons t' tbls)
  from Cons.prems(1) obtain rows' where
    r: "table_columns srv db t' = Some rows'" and
    l: "table_loop srv db tbls (dict_set acc t' (map column_of_row rows')) = Some tabs"
    by (auto split: option.splits)
  from Cons.IH [OF l Cons.prems(2)] show ?case
    using r by (auto dest: dict_set_mem)
qed

lemma table_loop_total:
  "list_all (\<lambda>t. table_columns srv db t \<noteq> None) tbls \<Longrightarrow> \<exists>tabs. table_loop srv db tbls acc = Some tabs"
  by (induction tbls arbitrary: acc) auto

lemma discover_db_Some:
  assumes "discover_db srv db = Some info"
  shows "db_connect srv db \<and>
    (\<exists>tbls tabs vs. base_tables srv db = Some tbls \<and> tbls \<noteq> []
       \<and> table_loop srv db tbls [] = Some tabs \<and> view_names srv db = Some vs
       \<and> info = \<lparr>info_tables = tabs, info_views = fold (\<lambda>v acc. dict_set acc v ()) vs [],
                  info_functions = [], info_procedures = []\<rparr>)"
  using assms unfolding discover_db_def
  by (auto split: if_splits option.splits)

lemma discover_db_accessible:
  assumes "accessible srv db" and "base_tables srv db \<noteq> Some []"
  shows "discover_db srv db \<noteq> None"
proof -
  from assms obtain tbls vs where
    c: "db_connect srv db" and b: "base_tables srv db = Some tbls" and ne: "tbls \<noteq> []" and
    cols: "list_all (\<lambda>t. table_columns srv db t \<noteq> None) tbls" and v: "view_names srv db = Some vs"
    unfolding accessible_def by (auto split: option.splits)
  from table_loop_total [OF cols] obtain tabs where "table_loop srv db tbls [] = Some tabs"
    by blast
  with c b ne v show ?thesis by (simp add: discover_db_def)
qed

lemma schema_loop_mem:
  "(db, info) \<in> set (schema_loop srv dbs acc) \<Longrightarrow>
     (db, info) \<in> set acc \<or> (db \<in> set dbs \<and> db \<notin> set excluded \<and> discover_db srv db = Some info)"
proof (induction dbs arbitrary: acc)
  case Nil
  then show ?case by simp
next
  case (Cons d dbs)
  show ?case
  proof (cases "d \<in> set excluded")
    case True
    with Cons show ?thesis by auto
  next
    case False
    show ?thesis
    proof (cases "discover_db srv d")
      case None
      with False Cons show ?thesis by auto
    next
      case (Some i)
      with False Cons.prems have "(db, info) \<in> set (schema_loop srv dbs (dict_set acc d i))"
        by simp
      from Cons.IH [OF this] show ?thesis
        using False Some by (auto dest: dict_set_mem)
    qed
  qed
qed

lemma schema_loop_keys:
  "fst ` set (schema_loop srv dbs acc) =
     fst ` set acc \<union> {db \<in> set dbs. db \<notin> set excluded \<and> discover_db srv db \<noteq> None}"
proof (induction dbs arbitrary: acc)
  case Nil
  then show ?case by simp
next
  case (Cons d dbs)
  show ?case
    by (cases "discover_db srv d") (auto simp: Cons.IH dict_set_keys)
qed

lemma get_mysql_schema_Inr:
  "get_mysql_schema srv = Inr catalog \<Longrightarrow>
     \<exists>dbs. show_databases srv = Inr dbs \<and> catalog = schema_loop srv dbs []"
  unfolding get_mysql_schema_def by (auto split: option.splits sum.splits)

text \<open>The calls of the gateway functions.\<close>

lemma run_statement_calls:
  "\<exists>rest. calls (snd (run_statement drv host user passwd database sql vals w))
     = calls w @ Connect host user passwd (Some database) # rest"
  by (auto simp: run_statement_def create_connection_def cur_execute_def conn_close_def log_call_def
      split: option.splits sum.splits prod.splits)

lemma run_select_rejected:
  "\<not> startswith (lower (strip select_sql)) ''select'' \<Longrightarrow>
     run_select drv host user passwd database select_sql w
       = (Inl (ValueError ''Only SELECT queries are allowed.''), w)"
  by (simp add: run_select_def)

lemma run_select_accepted_calls:
  assumes "startswith (lower (strip select_sql)) ''select''"
  shows "calls_made w (snd (run_select drv host user passwd database select_sql w)) =
     (case drv_connect drv host user passwd (Some database) (server w) of
        Some e \<Rightarrow> [Connect host user passwd (Some database)]
      | None \<Rightarrow>
          (case fst (drv_read_sql drv (Some database) select_sql (server w)) of
             Inl e \<Rightarrow> [Connect host user passwd (Some database), ReadSql (Some database) select_sql]
           | Inr df \<Rightarrow> [Connect host user passwd (Some database), ReadSql (Some database) select_sql,
                        Close (Some database)]))"
proof (cases "drv_connect drv host user passwd (Some database) (server w)")
  case (Some e)
  with assms show ?thesis
    by (simp add: run_select_def create_connection_def log_call_def calls_made_def)
next
  case None
  obtain r s' where q: "drv_read_sql drv (Some database) select_sql (server w) = (r, s')"
    by (cases "drv_read_sql drv (Some database) select_sql (server w)")
  show ?thesis
  proof (cases r)
    case (Inl e)
    with assms None q show ?thesis
      by (simp add: run_select_def create_connection_def pd_read_sql_def log_call_def calls_made_def)
  next
    case (Inr df)
    with assms None q show ?thesis
      by (simp add: run_select_def create_connection_def pd_read_sql_def conn_close_def
          log_call_def calls_made_def)
  qed
qed


text \<open>The insert form with blank texts only.\<close>

lemma form_inputs_blank:
  "list_all (\<lambda>kv. list_all py_isspace (snd kv)) texts \<Longrightarrow> list_all (\<lambda>kv. snd kv = None) acc \<Longrightarrow>
     list_all (\<lambda>kv. snd kv = None)
       (fold (\<lambda>(name, val) inputs. dict_set inputs name (if strip val = [] then None else Some val)) texts acc)"
proof (induction texts arbitrary: acc)
  case Nil
  then show ?case by simp
next
  case (Cons a texts)
  obtain name val where a: "a = (name, val)" by (cases a)
  from Cons.prems(1) have b: "strip val = []" by (simp add: a strip_empty_iff)
  have "list_all (\<lambda>kv. snd kv = None) (dict_set acc name None)"
    using Cons.prems(2) by (auto simp: list_all_iff dest: dict_set_mem)
  with Cons show ?case by (simp add: a b)
qed

lemma clean_inputs_none:
  "list_all (\<lambda>kv. snd kv = None) inputs \<Longrightarrow> clean_inputs inputs = []"
  by (induction inputs) (auto simp: clean_inputs_def List.map_filter_simps)
















section \<open>The claims\<close>

subsection \<open>C1: the alias order of the Runs field\<close>

text \<open>
  C1 as stated fails: a batting record whose \<open>runs\<close> is the number 0 and whose \<open>r\<close> is
  5 gets the Runs field 5, because \<open>or\<close> moves on from a falsy value, not only from a
  missing key.
\<close>

theorem batsman_runs_zero_counterexample:
  "row_field (batsman_row (JDict [(''runs'', JInt 0), (''r'', JInt 5)])) ''Runs'' = Some (JInt 5)"
  by (simp add: row_field_def py_or_def dget_def dict_get_def)

text \<open>
  C1, amended: for every batting participant record in which both \<open>runs\<close> and \<open>r\<close> are
  present with different values, the Runs field of the normalized row is the value of
  \<open>runs\<close> when that value is truthy, and the value of \<open>r\<close> when it is falsy (0, empty,
  false or null).
\<close>

theorem batsman_runs_alias:
  assumes "map_of b ''runs'' = Some v" and "map_of b ''r'' = Some u" and "v \<noteq> u"
  shows "row_field (batsman_row (JDict b)) ''Runs'' = Some (if truthy v then v else u)"
  using assms by (simp add: row_field_def py_or_def dget_def dict_get_def)

theorem batsman_runs_alias_witness:
  "row_field (batsman_row (JDict [(''runs'', JInt 7), (''r'', JInt 5)])) ''Runs'' = Some (JInt 7)"
  using batsman_runs_alias [of "[(''runs'', JInt 7), (''r'', JInt 5)]" "JInt 7" "JInt 5"]
  by simp

subsection \<open>C2: an empty field map\<close>

text \<open>
  C2 as stated fails: \<open>insert_row\<close> checks nothing. For the empty mapping it builds the
  statement \<open>INSERT INTO `players` () VALUES ();\<close>, opens a connection and executes it.
\<close>

theorem insert_row_empty_counterexample:
  "insert_row plain_driver ''h'' ''u'' ''p'' ''db'' ''players'' [] fresh_world
     = (Inr (1, ''INSERT INTO `players` () VALUES ();''),
        \<lparr>server = (),
         calls = [Connect ''h'' ''u'' ''p'' (Some ''db''),
                  Execute (Some ''db'') ''INSERT INTO `players` () VALUES ();'' [],
                  Close (Some ''db'')]\<rparr>)"
  by (simp add: insert_row_def insert_row_sql_def run_statement_def create_connection_def
      cur_execute_def conn_close_def log_call_def plain_driver_def fresh_world_def dict_values_def
      Let_def)

text \<open>
  C2, amended: \<open>insert_row\<close> itself does not reject an empty field map: it builds
  \<open>INSERT INTO `t` () VALUES ();\<close> and sends it over a new connection. The empty map
  is stopped one level up: when every text of the insert form is blank, the page warns
  that no values were provided and makes no database call.
\<close>

theorem empty_insert_stopped_by_form:
  "(list_all (\<lambda>kv. list_all py_isspace (snd kv)) texts \<longrightarrow>
      insert_submitted drv host user passwd database table texts w
        = (PageWarning ''No values provided to insert.'', w))
   \<and> insert_row drv host user passwd database table [] w'
        = run_statement drv host user passwd database (''INSERT INTO `'' @ table @ ''` () VALUES ();'') [] w'
   \<and> take 1 (calls_made w' (snd (insert_row drv host user passwd database table [] w')))
        = [Connect host user passwd (Some database)]"
proof (intro conjI impI)
  assume "list_all (\<lambda>kv. list_all py_isspace (snd kv)) texts"
  then have "clean_inputs (form_inputs texts) = []"
    unfolding form_inputs_def by (intro clean_inputs_none form_inputs_blank) simp_all
  then show "insert_submitted drv host user passwd database table texts w
        = (PageWarning ''No values provided to insert.'', w)"
    by (simp add: insert_submitted_def)
next
  show e: "insert_row drv host user passwd database table [] w'
        = run_statement drv host user passwd database (''INSERT INTO `'' @ table @ ''` () VALUES ();'') [] w'"
    by (simp add: insert_row_def insert_row_sql_def dict_values_def)
  from run_statement_calls [of drv host user passwd database _ "[]" w']
  show "take 1 (calls_made w' (snd (insert_row drv host user passwd database table [] w')))
        = [Connect host user passwd (Some database)]"
    unfolding e calls_made_def by (metis append_eq_conv_conj take_Suc_Cons take_0 One_nat_def)
qed

theorem empty_insert_stopped_by_form_witness:
  "insert_submitted plain_driver ''h'' ''u'' ''p'' ''db'' ''players'' [(''name'', ''''), (''team'', ''  '')] fresh_world
     = (PageWarning ''No values provided to insert.'', fresh_world)"
proof -
  have "list_all (\<lambda>kv. list_all py_isspace (snd kv)) [(''name'', ''''), (''team'', ''  '')]"
    by (simp add: py_isspace_def)
  with empty_insert_stopped_by_form [where texts = "[(''name'', ''''), (''team'', ''  '')]"
      and drv = plain_driver and host = "''h''" and user = "''u''" and passwd = "''p''"
      and database = "''db''" and table = "''players''" and w = fresh_world]
  show ?thesis by blast
qed

subsection \<open>C3: an empty WHERE or SET clause\<close>

text \<open>
  C3: for every WHERE clause that is empty or made of whitespace only, \<open>delete_rows\<close>
  and \<open>execute_update\<close> raise a validation error and leave the world as it was: no
  connection is opened, no call is logged, the server state is untouched. \<open>execute_update\<close>
  does the same for an empty or whitespace-only SET clause.
\<close>

theorem empty_where_rejected:
  "(list_all py_isspace where_clause \<longrightarrow>
      delete_rows drv host user passwd database table where_clause w
        = (Inl (ValueError ''Refusing to DELETE without WHERE clause.''), w)
    \<and> is_validation_error (fst (execute_update drv host user passwd database table set_clause where_clause w))
    \<and> snd (execute_update drv host user passwd database table set_clause where_clause w) = w)
  \<and> (list_all py_isspace set_clause \<longrightarrow>
      execute_update drv host user passwd database table set_clause where_clause w
        = (Inl (ValueError ''SET clause cannot be empty.''), w))"
  by (simp add: delete_rows_def execute_update_def strip_empty_iff Let_def)

theorem empty_where_rejected_witness:
  "delete_rows plain_driver ''h'' ''u'' ''p'' ''db'' ''players'' ''   '' fresh_world
     = (Inl (ValueError ''Refusing to DELETE without WHERE clause.''), fresh_world)
   \<and> calls (snd (execute_update plain_driver ''h'' ''u'' ''p'' ''db'' ''players'' ''x = 1'' ''   '' fresh_world)) = []
   \<and> execute_update plain_driver ''h'' ''u'' ''p'' ''db'' ''players'' '''' ''id = 1'' fresh_world
     = (Inl (ValueError ''SET clause cannot be empty.''), fresh_world)"
  using empty_where_rejected [where where_clause = "''   ''" and set_clause = "''x = 1''"
      and drv = plain_driver and host = "''h''" and user = "''u''" and passwd = "''p''"
      and database = "''db''" and table = "''players''" and w = fresh_world]
    empty_where_rejected [where where_clause = "''id = 1''" and set_clause = "''''"
      and drv = plain_driver and host = "''h''" and user = "''u''" and passwd = "''p''"
      and database = "''db''" and table = "''players''" and w = fresh_world]
  by (simp add: py_isspace_def fresh_world_def)

subsection \<open>C4: where the innings collection is found\<close>

text \<open>
  C4: for every scorecard document (a non-empty JSON object) the innings collection is
  the value the specification's search finds: the keys \<open>scorecard\<close>, \<open>scoreCard\<close>,
  \<open>innings\<close>, \<open>scoreCards\<close> tried in this order, the first present truthy value
  winning, and the raw-payload fallback when there is none. A mapping is rendered as the
  list of its values in iteration order. A document that exposes the collection under
  \<open>scoreCard\<close> only yields the same innings records, or the same error, as one that
  exposes the same value under \<open>scorecard\<close>.
\<close>

theorem innings_located_in_key_order:
  "(kvs \<noteq> [] \<longrightarrow>
      show_innings_scorecard (JDict kvs) =
        (case locate_innings_spec kvs of
           None \<Rightarrow> Inr (NoInningsData (JDict kvs))
         | Some v \<Rightarrow> render_collection v))
   \<and> render_collection (JDict d) =
        (case render_all 1 (map snd d) of Inl e \<Rightarrow> Inl e | Inr vs \<Rightarrow> Inr (Innings vs))
   \<and> (map_of kvs ''scorecard'' = None \<and> map_of kvs ''scoreCard'' = Some v
        \<and> map_of kvs' ''scorecard'' = Some v \<and> map_of kvs' ''scoreCard'' = None
        \<and> map_of kvs ''innings'' = map_of kvs' ''innings''
        \<and> map_of kvs ''scoreCards'' = map_of kvs' ''scoreCards''
      \<longrightarrow> records_of (show_innings_scorecard (JDict kvs))
          = records_of (show_innings_scorecard (JDict kvs')))"
proof (intro conjI impI)
  assume "kvs \<noteq> []"
  then show "show_innings_scorecard (JDict kvs) =
        (case locate_innings_spec kvs of
           None \<Rightarrow> Inr (NoInningsData (JDict kvs))
         | Some v \<Rightarrow> render_collection v)"
    by (simp add: show_innings_scorecard_dict locate_innings_spec_eq)
next
  show "render_collection (JDict d) =
        (case render_all 1 (map snd d) of Inl e \<Rightarrow> Inl e | Inr vs \<Rightarrow> Inr (Innings vs))"
    by (simp add: render_collection_def dict_values_def)
next
  assume a: "map_of kvs ''scorecard'' = None \<and> map_of kvs ''scoreCard'' = Some v
        \<and> map_of kvs' ''scorecard'' = Some v \<and> map_of kvs' ''scoreCard'' = None
        \<and> map_of kvs ''innings'' = map_of kvs' ''innings''
        \<and> map_of kvs ''scoreCards'' = map_of kvs' ''scoreCards''"
  then have ne: "kvs \<noteq> []" "kvs' \<noteq> []" by auto
  from a have iv: "innings_value kvs = innings_value kvs'"
    by (simp add: innings_value_def py_or_def dget_def dict_get_def)
  show "records_of (show_innings_scorecard (JDict kvs))
          = records_of (show_innings_scorecard (JDict kvs'))"
    using ne iv by (simp add: show_innings_scorecard_dict records_of_def)
qed

theorem innings_located_in_key_order_witness:
  "show_innings_scorecard (JDict [(''scoreCard'', JDict [(''1'', JDict innings_as_lists)])])
     = render_collection (JDict [(''1'', JDict innings_as_lists)])
   \<and> records_of (show_innings_scorecard (JDict [(''scoreCard'', JList [JDict innings_as_lists])]))
     = records_of (show_innings_scorecard (JDict [(''scorecard'', JList [JDict innings_as_lists])]))"
proof -
  note t = innings_located_in_key_order
  have s: "locate_innings_spec [(''scoreCard'', JDict [(''1'', JDict innings_as_lists)])]
      = Some (JDict [(''1'', JDict innings_as_lists)])"
    by (simp add: locate_innings_spec_def innings_keys_def)
  have "show_innings_scorecard (JDict [(''scoreCard'', JDict [(''1'', JDict innings_as_lists)])])
     = render_collection (JDict [(''1'', JDict innings_as_lists)])"
    using t [where kvs = "[(''scoreCard'', JDict [(''1'', JDict innings_as_lists)])]",
        THEN conjunct1] s by simp
  moreover have "records_of (show_innings_scorecard (JDict [(''scoreCard'', JList [JDict innings_as_lists])]))
     = records_of (show_innings_scorecard (JDict [(''scorecard'', JList [JDict innings_as_lists])]))"
    using t [where kvs = "[(''scoreCard'', JList [JDict innings_as_lists])]"
      and kvs' = "[(''scorecard'', JList [JDict innings_as_lists])]"
      and v = "JList [JDict innings_as_lists]", THEN conjunct2, THEN conjunct2]
    by simp
  ultimately show ?thesis by simp
qed

subsection \<open>C5: what the catalog holds\<close>

text \<open>
  C5 as stated fails: a database that the user can read in full and that is not a
  system database, but holds views and no base table, is left out of the catalog.
\<close>

theorem views_only_database_omitted_counterexample:
  "show_databases views_only_server = Inr [''information_schema'', ''reports'']
   \<and> ''reports'' \<notin> set excluded
   \<and> accessible views_only_server ''reports''
   \<and> view_names views_only_server ''reports'' = Some [''v_totals'']
   \<and> get_mysql_schema views_only_server = Inr []"
  by (simp add: views_only_server_def excluded_def accessible_def get_mysql_schema_def
      discover_db_def)

text \<open>
  C5, amended: every database of the catalog is not a system database and has at least
  one base table; its \<open>tables\<close> entry has exactly its base tables as keys, each with the
  column rows the catalog query returned, its \<open>views\<close> entry has exactly its view names
  as keys (no columns), and its \<open>functions\<close> and \<open>procedures\<close> entries are empty.
  Every non-excluded, accessible database with at least one base table appears in the
  catalog.
\<close>

theorem catalog_contents:
  assumes "get_mysql_schema srv = Inr catalog"
  shows "((db, info) \<in> set catalog \<longrightarrow>
            db \<notin> set excluded
            \<and> (\<exists>tbls vs. base_tables srv db = Some tbls \<and> tbls \<noteq> []
                 \<and> fst ` set (info_tables info) = set tbls
                 \<and> view_names srv db = Some vs
                 \<and> fst ` set (info_views info) = set vs)
            \<and> ((t, cols) \<in> set (info_tables info) \<longrightarrow>
                 (\<exists>rows. table_columns srv db t = Some rows \<and> cols = map column_of_row rows))
            \<and> info_functions info = []
            \<and> info_procedures info = [])
    \<and> (show_databases srv = Inr dbs \<and> db' \<in> set dbs \<and> db' \<notin> set excluded
          \<and> accessible srv db' \<and> base_tables srv db' \<noteq> Some []
        \<longrightarrow> db' \<in> fst ` set catalog)"
proof (intro conjI impI)
  from get_mysql_schema_Inr [OF assms] obtain all_dbs where
    sd: "show_databases srv = Inr all_dbs" and c: "catalog = schema_loop srv all_dbs []"
    by blast
  {
    assume m: "(db, info) \<in> set catalog"
    from schema_loop_mem [OF m [unfolded c]] have
      ex: "db \<notin> set excluded" and d: "discover_db srv db = Some info" by auto
    from discover_db_Some [OF d] obtain tbls tabs vs where
      b: "base_tables srv db = Some tbls" and ne: "tbls \<noteq> []" and
      tl: "table_loop srv db tbls [] = Some tabs" and v: "view_names srv db = Some vs" and
      i: "info = \<lparr>info_tables = tabs, info_views = fold (\<lambda>v acc. dict_set acc v ()) vs [],
                  info_functions = [], info_procedures = []\<rparr>"
      by blast
    show "db \<notin> set excluded" by (rule ex)
    have "fst ` set (info_tables info) = set tbls"
      using table_loop_keys [OF tl] by (simp add: i)
    moreover have "fst ` set (info_views info) = set vs"
      by (simp add: i fold_dict_set_keys)
    ultimately show "\<exists>tbls vs. base_tables srv db = Some tbls \<and> tbls \<noteq> []
                 \<and> fst ` set (info_tables info) = set tbls
                 \<and> view_names srv db = Some vs
                 \<and> fst ` set (info_views info) = set vs"
      using b ne v by blast
    show "info_functions info = []" by (simp add: i)
    show "info_procedures info = []" by (simp add: i)
    {
      assume "(t, cols) \<in> set (info_tables info)"
      then have "(t, cols) \<in> set tabs" by (simp add: i)
      from table_loop_mem [OF tl this]
      show "\<exists>rows. table_columns srv db t = Some rows \<and> cols = map column_of_row rows"
        by simp
    }
  }
  {
    assume a: "show_databases srv = Inr dbs \<and> db' \<in> set dbs \<and> db' \<notin> set excluded
          \<and> accessible srv db' \<and> base_tables srv db' \<noteq> Some []"
    then have "dbs = all_dbs" using sd by simp
    moreover have "discover_db srv db' \<noteq> None"
    proof (rule discover_db_accessible)
      from a show "accessible srv db'" by simp
      from a show "base_tables srv db' \<noteq> Some []" by simp
    qed
    ultimately show "db' \<in> fst ` set catalog"
      using a unfolding c schema_loop_keys by simp
  }
qed

theorem catalog_contents_witness:
  "get_mysql_schema cricket_server = Inr
     [(''cricbuzz_db'',
       \<lparr>info_tables = [(''players'',
          [\<lparr>col_name = ''player_id'', col_type = ''int'', col_nullable = ''NO'', col_key = ''PRI'',
            col_default = None, col_extra = ''auto_increment''\<rparr>,
           \<lparr>col_name = ''name'', col_type = ''varchar'', col_nullable = ''YES'', col_key = [],
            col_default = None, col_extra = []\<rparr>])],
        info_views = [(''v_totals'', ())], info_functions = [], info_procedures = []\<rparr>)]
   \<and> ''cricbuzz_db'' \<in> fst ` set (schema_loop cricket_server [''mysql'', ''cricbuzz_db'', ''sys''] [])"
proof -
  have g: "get_mysql_schema cricket_server = Inr (schema_loop cricket_server [''mysql'', ''cricbuzz_db'', ''sys''] [])"
    by (simp add: get_mysql_schema_def cricket_server_def)
  have h: "show_databases cricket_server = Inr [''mysql'', ''cricbuzz_db'', ''sys'']
      \<and> ''cricbuzz_db'' \<in> set [''mysql'', ''cricbuzz_db'', ''sys''] \<and> ''cricbuzz_db'' \<notin> set excluded
      \<and> accessible cricket_server ''cricbuzz_db'' \<and> base_tables cricket_server ''cricbuzz_db'' \<noteq> Some []"
    by (simp add: cricket_server_def excluded_def accessible_def)
  have k: "''cricbuzz_db'' \<in> fst ` set (schema_loop cricket_server [''mysql'', ''cricbuzz_db'', ''sys''] [])"
    using catalog_contents [OF g, where db' = "''cricbuzz_db''" and dbs = "[''mysql'', ''cricbuzz_db'', ''sys'']",
        THEN conjunct2] h by blast
  have v: "get_mysql_schema cricket_server = Inr
     [(''cricbuzz_db'',
       \<lparr>info_tables = [(''players'',
          [\<lparr>col_name = ''player_id'', col_type = ''int'', col_nullable = ''NO'', col_key = ''PRI'',
            col_default = None, col_extra = ''auto_increment''\<rparr>,
           \<lparr>col_name = ''name'', col_type = ''varchar'', col_nullable = ''YES'', col_key = [],
            col_default = None, col_extra = []\<rparr>])],
        info_views = [(''v_totals'', ())], info_functions = [], info_procedures = []\<rparr>)]"
    by (simp add: get_mysql_schema_def cricket_server_def excluded_def discover_db_def)
  from k v show ?thesis by simp
qed

subsection \<open>C6: the read-only guard\<close>

text \<open>
  C6: \<open>run_select\<close> raises the validation error, with the world untouched, for every
  text whose stripped, lowered form does not start with \<open>select\<close>; for every other
  text its first call is the connection; and once the connection opens, the query text
  is handed to the database exactly when the stripped, lowered text starts with
  \<open>select\<close>.
\<close>

theorem run_select_guard:
  "(\<not> startswith (lower (strip select_sql)) ''select'' \<longrightarrow>
      run_select drv host user passwd database select_sql w
        = (Inl (ValueError ''Only SELECT queries are allowed.''), w))
   \<and> (startswith (lower (strip select_sql)) ''select'' \<longrightarrow>
        take 1 (calls_made w (snd (run_select drv host user passwd database select_sql w)))
          = [Connect host user passwd (Some database)])
   \<and> (drv_connect drv host user passwd (Some database) (server w) = None \<longrightarrow>
        (ReadSql (Some database) select_sql
           \<in> set (calls_made w (snd (run_select drv host user passwd database select_sql w))))
        = startswith (lower (strip select_sql)) ''select'')"
proof (intro conjI impI)
  assume "\<not> startswith (lower (strip select_sql)) ''select''"
  then show "run_select drv host user passwd database select_sql w
        = (Inl (ValueError ''Only SELECT queries are allowed.''), w)"
    by (rule run_select_rejected)
next
  assume "startswith (lower (strip select_sql)) ''select''"
  then show "take 1 (calls_made w (snd (run_select drv host user passwd database select_sql w)))
          = [Connect host user passwd (Some database)]"
    by (simp add: run_select_accepted_calls split: option.splits sum.splits)
next
  assume c: "drv_connect drv host user passwd (Some database) (server w) = None"
  show "(ReadSql (Some database) select_sql
           \<in> set (calls_made w (snd (run_select drv host user passwd database select_sql w))))
        = startswith (lower (strip select_sql)) ''select''"
  proof (cases "startswith (lower (strip select_sql)) ''select''")
    case True
    then show ?thesis
      using c by (simp add: run_select_accepted_calls split: sum.splits)
  next
    case False
    then show ?thesis
      by (simp add: run_select_rejected calls_made_def)
  qed
qed

theorem run_select_guard_witness:
  "run_select plain_driver ''h'' ''u'' ''p'' ''db'' ''update players set x=1'' fresh_world
     = (Inl (ValueError ''Only SELECT queries are allowed.''), fresh_world)
   \<and> ReadSql (Some ''db'') ''select * from players''
       \<in> set (calls_made fresh_world
           (snd (run_select plain_driver ''h'' ''u'' ''p'' ''db'' ''select * from players'' fresh_world)))
   \<and> ReadSql (Some ''db'') ''  SeLeCT 1''
       \<in> set (calls_made fresh_world
           (snd (run_select plain_driver ''h'' ''u'' ''p'' ''db'' ''  SeLeCT 1'' fresh_world)))"
proof -
  note t = run_select_guard [where drv = plain_driver and host = "''h''" and user = "''u''"
      and passwd = "''p''" and database = "''db''" and w = fresh_world]
  have c: "drv_connect plain_driver ''h'' ''u'' ''p'' (Some ''db'') (server fresh_world) = None"
    by (simp add: plain_driver_def)
  have a: "\<not> startswith (lower (strip ''update players set x=1'')) ''select''"
    by code_simp
  have b: "startswith (lower (strip ''select * from players'')) ''select''"
    by code_simp
  have d: "startswith (lower (strip ''  SeLeCT 1'')) ''select''"
    by code_simp
  from t [where select_sql = "''update players set x=1''"] a
  have 1: "run_select plain_driver ''h'' ''u'' ''p'' ''db'' ''update players set x=1'' fresh_world
     = (Inl (ValueError ''Only SELECT queries are allowed.''), fresh_world)" by blast
  from t [where select_sql = "''select * from players''"] b c
  have 2: "ReadSql (Some ''db'') ''select * from players''
       \<in> set (calls_made fresh_world
           (snd (run_select plain_driver ''h'' ''u'' ''p'' ''db'' ''select * from players'' fresh_world)))"
    by blast
  from t [where select_sql = "''  SeLeCT 1''"] d c
  have 3: "ReadSql (Some ''db'') ''  SeLeCT 1''
       \<in> set (calls_made fresh_world
           (snd (run_select plain_driver ''h'' ''u'' ''p'' ''db'' ''  SeLeCT 1'' fresh_world)))"
    by blast
  from 1 2 3 show ?thesis by blast
qed

subsection \<open>C7: participants as a mapping or as a list\<close>

text \<open>
  C7: for every innings, participants supplied as a mapping from player id to stats
  (under \<open>batsmenData\<close>, \<open>bowlersData\<close>) and participants supplied as the plain list of
  the mapping's values in the same order (under \<open>batsman\<close>, \<open>bowler\<close>) produce the same
  rows, or the same error, for the batting list and for the bowling list; with the same
  team name keys the whole rendered innings is the same.
\<close>

theorem mapping_and_list_same_rows:
  "(dget i1 ''batsman'' = JList xs \<and> \<not> is_list (dget i2 ''batsman'')
      \<and> dget i2 ''batsmenData'' = JDict d \<and> dict_values d = xs
     \<longrightarrow> map_err batsman_row (batsmen_source i1) = map_err batsman_row (batsmen_source i2))
   \<and> (dget i1 ''bowler'' = JList ys \<and> \<not> is_list (dget i2 ''bowler'')
      \<and> dget i2 ''bowlersData'' = JDict e \<and> dict_values e = ys
     \<longrightarrow> map_err bowler_row (bowlers_source i1) = map_err bowler_row (bowlers_source i2))
   \<and> (dget i1 ''batsman'' = JList xs \<and> \<not> is_list (dget i2 ''batsman'')
      \<and> dget i2 ''batsmenData'' = JDict d \<and> dict_values d = xs
      \<and> dget i1 ''bowler'' = JList ys \<and> \<not> is_list (dget i2 ''bowler'')
      \<and> dget i2 ''bowlersData'' = JDict e \<and> dict_values e = ys
      \<and> dget i1 ''batteamname'' = dget i2 ''batteamname''
      \<and> dget i1 ''batTeamName'' = dget i2 ''batTeamName''
      \<and> dget i1 ''batTeamShortName'' = dget i2 ''batTeamShortName''
      \<and> dget i1 ''batTeam'' = dget i2 ''batTeam''
     \<longrightarrow> render_innings n (JDict i1) = render_innings n (JDict i2))"
proof (intro conjI impI)
  assume "dget i1 ''batsman'' = JList xs \<and> \<not> is_list (dget i2 ''batsman'')
      \<and> dget i2 ''batsmenData'' = JDict d \<and> dict_values d = xs"
  then show "map_err batsman_row (batsmen_source i1) = map_err batsman_row (batsmen_source i2)"
    by (simp add: batsmen_source_def participants_list participants_dict)
next
  assume "dget i1 ''bowler'' = JList ys \<and> \<not> is_list (dget i2 ''bowler'')
      \<and> dget i2 ''bowlersData'' = JDict e \<and> dict_values e = ys"
  then show "map_err bowler_row (bowlers_source i1) = map_err bowler_row (bowlers_source i2)"
    by (simp add: bowlers_source_def participants_list participants_dict)
next
  assume a: "dget i1 ''batsman'' = JList xs \<and> \<not> is_list (dget i2 ''batsman'')
      \<and> dget i2 ''batsmenData'' = JDict d \<and> dict_values d = xs
      \<and> dget i1 ''bowler'' = JList ys \<and> \<not> is_list (dget i2 ''bowler'')
      \<and> dget i2 ''bowlersData'' = JDict e \<and> dict_values e = ys
      \<and> dget i1 ''batteamname'' = dget i2 ''batteamname''
      \<and> dget i1 ''batTeamName'' = dget i2 ''batTeamName''
      \<and> dget i1 ''batTeamShortName'' = dget i2 ''batTeamShortName''
      \<and> dget i1 ''batTeam'' = dget i2 ''batTeam''"
  then have bat: "batsmen_source i1 = batsmen_source i2"
    by (simp add: batsmen_source_def participants_list participants_dict)
  from a have bowl: "bowlers_source i1 = bowlers_source i2"
    by (simp add: bowlers_source_def participants_list participants_dict)
  from a have t1: "dget i1 ''batteamname'' = dget i2 ''batteamname''" by blast
  from a have t2: "dget i1 ''batTeamName'' = dget i2 ''batTeamName''" by blast
  from a have t3: "dget i1 ''batTeamShortName'' = dget i2 ''batTeamShortName''" by blast
  from a have t4: "dget i1 ''batTeam'' = dget i2 ''batTeam''" by blast
  show "render_innings n (JDict i1) = render_innings n (JDict i2)"
    by (simp only: render_innings.simps bat bowl t1 t2 t3 t4)
qed

theorem mapping_and_list_same_rows_witness:
  "render_innings 1 (JDict innings_as_lists) = render_innings 1 (JDict innings_as_mappings)
   \<and> map_err batsman_row (batsmen_source innings_as_mappings) = Inr
       [[(''Name'', JStr ''Rohit''), (''Runs'', JInt 45), (''Balls'', JInt 0), (''4s'', JInt 0),
         (''6s'', JInt 0), (''SR'', JInt 0), (''Out'', JStr [])],
        [(''Name'', JStr ''Gill''), (''Runs'', JInt 12), (''Balls'', JInt 0), (''4s'', JInt 0),
         (''6s'', JInt 0), (''SR'', JInt 0), (''Out'', JStr [])]]"
proof -
  have h: "dget innings_as_lists ''batsman'' =
        JList [JDict [(''name'', JStr ''Rohit''), (''runs'', JInt 45)],
               JDict [(''batName'', JStr ''Gill''), (''r'', JInt 12)]]
      \<and> \<not> is_list (dget innings_as_mappings ''batsman'')
      \<and> dget innings_as_mappings ''batsmenData'' = JDict
         [(''bat_1'', JDict [(''name'', JStr ''Rohit''), (''runs'', JInt 45)]),
          (''bat_2'', JDict [(''batName'', JStr ''Gill''), (''r'', JInt 12)])]
      \<and> dict_values [(''bat_1'', JDict [(''name'', JStr ''Rohit''), (''runs'', JInt 45)]),
          (''bat_2'', JDict [(''batName'', JStr ''Gill''), (''r'', JInt 12)])]
        = [JDict [(''name'', JStr ''Rohit''), (''runs'', JInt 45)],
               JDict [(''batName'', JStr ''Gill''), (''r'', JInt 12)]]
      \<and> dget innings_as_lists ''bowler'' = JList [JDict [(''name'', JStr ''Starc''), (''wickets'', JInt 2)]]
      \<and> \<not> is_list (dget innings_as_mappings ''bowler'')
      \<and> dget innings_as_mappings ''bowlersData'' =
          JDict [(''bowl_1'', JDict [(''name'', JStr ''Starc''), (''wickets'', JInt 2)])]
      \<and> dict_values [(''bowl_1'', JDict [(''name'', JStr ''Starc''), (''wickets'', JInt 2)])]
          = [JDict [(''name'', JStr ''Starc''), (''wickets'', JInt 2)]]
      \<and> dget innings_as_lists ''batteamname'' = dget innings_as_mappings ''batteamname''
      \<and> dget innings_as_lists ''batTeamName'' = dget innings_as_mappings ''batTeamName''
      \<and> dget innings_as_lists ''batTeamShortName'' = dget innings_as_mappings ''batTeamShortName''
      \<and> dget innings_as_lists ''batTeam'' = dget innings_as_mappings ''batTeam''"
    by (simp add: innings_as_lists_def innings_as_mappings_def dget_def dict_get_def dict_values_def)
  have r: "render_innings 1 (JDict innings_as_lists) = render_innings 1 (JDict innings_as_mappings)"
    using h mapping_and_list_same_rows [where ?i1.0 = innings_as_lists and ?i2.0 = innings_as_mappings
        and n = 1] by blast
  have v: "map_err batsman_row (batsmen_source innings_as_mappings) = Inr
       [[(''Name'', JStr ''Rohit''), (''Runs'', JInt 45), (''Balls'', JInt 0), (''4s'', JInt 0),
         (''6s'', JInt 0), (''SR'', JInt 0), (''Out'', JStr [])],
        [(''Name'', JStr ''Gill''), (''Runs'', JInt 12), (''Balls'', JInt 0), (''4s'', JInt 0),
         (''6s'', JInt 0), (''SR'', JInt 0), (''Out'', JStr [])]]"
    by (simp add: innings_as_mappings_def batsmen_source_def participants_def dget_def dict_get_def
        dict_values_def py_or_def)
  from r v show ?thesis by simp
qed

subsection \<open>C8: the statement of fetch\_table\<close>



subsection \<open>C9: the system databases\<close>

text \<open>
  C9: whatever the server answers, the catalog that schema discovery returns has no
  entry for \<open>information_schema\<close>, \<open>performance_schema\<close>, \<open>mysql\<close> or \<open>sys\<close>, also when
  the user can connect to them.
\<close>

theorem system_databases_excluded:
  assumes "get_mysql_schema srv = Inr catalog"
  shows "map_of catalog ''information_schema'' = None
    \<and> map_of catalog ''performance_schema'' = None
    \<and> map_of catalog ''mysql'' = None
    \<and> map_of catalog ''sys'' = None"
proof -
  from get_mysql_schema_Inr [OF assms] obtain dbs where
    c: "catalog = schema_loop srv dbs []" by blast
  have "k \<in> set excluded \<Longrightarrow> map_of catalog k = None" for k
    by (rule not_key_map_of) (simp add: c schema_loop_keys)
  then show ?thesis by (simp add: excluded_def)
qed

theorem system_databases_excluded_witness:
  "db_connect cricket_server ''mysql'' \<and> db_connect cricket_server ''sys''
   \<and> show_databases cricket_server = Inr [''mysql'', ''cricbuzz_db'', ''sys'']
   \<and> map_of (schema_loop cricket_server [''mysql'', ''cricbuzz_db'', ''sys''] []) ''mysql'' = None
   \<and> map_of (schema_loop cricket_server [''mysql'', ''cricbuzz_db'', ''sys''] []) ''sys'' = None
   \<and> map_of (schema_loop cricket_server [''mysql'', ''cricbuzz_db'', ''sys''] []) ''cricbuzz_db'' \<noteq> None"
proof -
  have g: "get_mysql_schema cricket_server = Inr (schema_loop cricket_server [''mysql'', ''cricbuzz_db'', ''sys''] [])"
    by (simp add: get_mysql_schema_def cricket_server_def)
  have d: "discover_db cricket_server ''cricbuzz_db'' \<noteq> None"
    by (simp add: discover_db_def cricket_server_def)
  have "''cricbuzz_db'' \<in> fst ` set (schema_loop cricket_server [''mysql'', ''cricbuzz_db'', ''sys''] [])"
    unfolding schema_loop_keys using d by (simp add: excluded_def)
  then have k: "map_of (schema_loop cricket_server [''mysql'', ''cricbuzz_db'', ''sys''] []) ''cricbuzz_db'' \<noteq> None"
    by (simp add: map_of_eq_None_iff)
  from system_databases_excluded [OF g] k show ?thesis
    by (simp add: cricket_server_def)
qed

subsection \<open>C10: a live-matches document without typeMatches\<close>

text \<open>
  C10: for every live-matches document (a JSON object) that lacks the key
  \<open>typeMatches\<close>, the page builds the empty grouping and raises nothing. The outcome is
  one of the two warnings, "no live matches" for the empty document and "no active
  series" otherwise, never an error.
\<close>

theorem live_matches_without_typeMatches:
  assumes "map_of kvs ''typeMatches'' = None"
  shows "show_live_matches fmt (JDict kvs) = Inr (if kvs = [] then NoLiveMatches else NoActiveSeries)
    \<and> (case show_live_matches fmt (JDict kvs) of Inl e \<Rightarrow> False | Inr v \<Rightarrow> grouping v = [])"
  using assms by (simp add: show_live_matches_def dict_get_def)

theorem live_matches_without_typeMatches_witness:
  "show_live_matches (\<lambda>v. ''x'') (JDict [(''status'', JStr ''none'')]) = Inr NoActiveSeries"
  using live_matches_without_typeMatches [of "[(''status'', JStr ''none'')]" "\<lambda>v. ''x''"]
  by simp

end
